theory Spec2Isabelle
  imports Complex_Main
begin

section \<open>Constants and data of main.go\<close>

text \<open>
  Go strings are byte sequences and \<open>len\<close> counts bytes; \<open>string\<close> (a list of 8-bit
  \<open>char\<close>) is the same thing, and \<open>length\<close> is Go's \<open>len\<close>.
\<close>

definition maxPollAttempts :: int where
  "maxPollAttempts = 40"

definition minPhoneLength :: nat where
  "minPhoneLength = 9"

record PaymentRequest =
  Amount :: string
  From :: string
  Description :: string

section \<open>Validator\<close>

text \<open>
  Each \<open>fmt.Errorf\<close> of the validators is one constructor; a returned \<open>nil\<close> is \<open>None\<close>.
\<close>

datatype validation_error =
    PhoneEmpty
  | PhoneTooShort
  | PhoneBadFormat
  | AmountEmpty
  | AmountInvalid
  | AmountNotPositive
  | DescriptionEmpty
  | DescriptionTooLong

text \<open>
  \<open>strings.ReplaceAll(s, old, new)\<close> for a pattern \<open>old\<close> of one byte, which is the only
  way \<open>validatePhoneNumber\<close> calls it (space, hyphen and plus are one byte each and never
  part of a longer UTF-8 sequence).
\<close>

primrec ReplaceAll :: "string \<Rightarrow> char \<Rightarrow> string \<Rightarrow> string" where
  "ReplaceAll [] old new = []"
| "ReplaceAll (c # cs) old new =
     (if c = old then new @ ReplaceAll cs old new else c # ReplaceAll cs old new)"

text \<open>\<open>strings.HasPrefix(s, prefix)\<close>: \<open>len(s) >= len(prefix) && s[:len(prefix)] == prefix\<close>.\<close>

definition HasPrefix :: "string \<Rightarrow> string \<Rightarrow> bool" where
  "HasPrefix s p = (length p \<le> length s \<and> take (length p) s = p)"

definition validatePhoneNumber :: "string \<Rightarrow> validation_error option" where
  "validatePhoneNumber phone =
     (if phone = [] then Some PhoneEmpty
      else
        let phone1 = ReplaceAll phone (CHR '' '') [];
            phone2 = ReplaceAll phone1 (CHR ''-'') [];
            phone3 = ReplaceAll phone2 (CHR ''+'') []
        in if length phone3 < minPhoneLength then Some PhoneTooShort
           else if \<not> HasPrefix phone3 ''237'' \<and> \<not> HasPrefix phone3 ''6''
                then Some PhoneBadFormat
           else None)"

text \<open>
  A \<open>float64\<close> as \<open>strconv.ParseFloat\<close> can return it: a finite value (every finite
  float64 is a real number; the two zeros compare equal), an infinity, or NaN.
  \<open>f64_le\<close> is Go's \<open><=\<close> on float64: false whenever an operand is NaN.
\<close>

datatype float64 = Finite real | PosInf | NegInf | NaN

fun f64_le :: "float64 \<Rightarrow> float64 \<Rightarrow> bool" where
  "f64_le NaN _ = False"
| "f64_le _ NaN = False"
| "f64_le NegInf _ = True"
| "f64_le _ PosInf = True"
| "f64_le (Finite a) (Finite b) = (a \<le> b)"
| "f64_le _ _ = False"

definition minAmount :: float64 where
  "minAmount = Finite 0"

text \<open>
  \<open>strconv.ParseFloat(s, 64)\<close> belongs to Go's standard library, not to this repository:
  it is a parameter \<open>pf\<close> of the model. \<open>Inl\<close> is a non-nil \<open>err\<close> (\<open>ErrSyntax\<close> or
  \<open>ErrRange\<close>), \<open>Inr v\<close> is the value with a nil \<open>err\<close>.
\<close>

datatype num_error = ErrSyntax | ErrRange

type_synonym parse_float = "string \<Rightarrow> num_error + float64"

definition validateAmount :: "parse_float \<Rightarrow> string \<Rightarrow> validation_error option" where
  "validateAmount pf amount =
     (if amount = [] then Some AmountEmpty
      else case pf amount of
             Inl err \<Rightarrow> Some AmountInvalid
           | Inr val \<Rightarrow> if f64_le val minAmount then Some AmountNotPositive else None)"

definition validateDescription :: "string \<Rightarrow> validation_error option" where
  "validateDescription description =
     (if description = [] then Some DescriptionEmpty
      else if length description > 200 then Some DescriptionTooLong
      else None)"

definition validatePaymentRequest :: "parse_float \<Rightarrow> PaymentRequest \<Rightarrow> validation_error option" where
  "validatePaymentRequest pf req =
     (case validatePhoneNumber (From req) of
        Some err \<Rightarrow> Some err
      | None \<Rightarrow>
         (case validateAmount pf (Amount req) of
            Some err \<Rightarrow> Some err
          | None \<Rightarrow>
             (case validateDescription (Description req) of
                Some err \<Rightarrow> Some err
              | None \<Rightarrow> None)))"

section \<open>HTTP layer\<close>

text \<open>
  The remote gateway and the resty client are outside the repository. What the code observes
  of one HTTP exchange is either a transport error (after resty's own retries) or a reply:
  its status code, whether its content type is JSON or XML, its body as \<open>resp.String()\<close>
  returns it (resty trims the white space around the raw body there), and what
  \<open>json.Unmarshal\<close> makes of the raw body for the Go struct registered with \<open>SetResult\<close>
  (\<open>None\<close> when unmarshalling fails).
\<close>

record 'r http_reply =
  StatusCode :: int
  JSONContent :: bool
  Body :: string
  Decoded :: "'r option"

datatype transport_error = NetworkError string | UnmarshalError

text \<open>
  resty v2, \<open>Request.SetResult\<close>: the registered struct is filled from the body only if the
  status code is between 200 and 299 and the content type is JSON or XML; a 204 reply is
  never parsed. Otherwise the struct keeps its zero value \<open>zero\<close>. A failed unmarshal is
  returned as the request's \<open>err\<close>.
\<close>

definition resty_result :: "'r \<Rightarrow> 'r http_reply \<Rightarrow> transport_error + 'r" where
  "resty_result zero resp =
     (if StatusCode resp = 204 then Inr zero
      else if JSONContent resp \<and> 199 < StatusCode resp \<and> StatusCode resp < 300 then
        (case Decoded resp of None \<Rightarrow> Inl UnmarshalError | Some v \<Rightarrow> Inr v)
      else Inr zero)"

text \<open>One request: the \<open>(resp, err)\<close> pair of \<open>Post\<close>/\<open>Get\<close> together with the struct.\<close>

definition resty_execute ::
  "'r \<Rightarrow> transport_error + 'r http_reply \<Rightarrow> transport_error + ('r http_reply \<times> 'r)" where
  "resty_execute zero outcome =
     (case outcome of
        Inl err \<Rightarrow> Inl err
      | Inr resp \<Rightarrow>
         (case resty_result zero resp of
            Inl err \<Rightarrow> Inl err
          | Inr v \<Rightarrow> Inr (resp, v)))"

section \<open>Gateway client\<close>

record Config =
  BaseURL :: string
  APIKey :: string
  PollInterval :: int
  MaxPollAttempts :: int

text \<open>
  \<open>InitResponse.Status\<close> is never read by the program; it is named \<open>InitStatus\<close> here to keep
  \<open>Status\<close> for \<open>StatusResponse\<close>.
\<close>

record InitResponse =
  Reference :: string
  InitStatus :: string
  Message :: string

record StatusResponse =
  Status :: string

definition zero_InitResponse :: InitResponse where
  "zero_InitResponse = \<lparr>Reference = [], InitStatus = [], Message = []\<rparr>"

definition zero_StatusResponse :: StatusResponse where
  "zero_StatusResponse = \<lparr>Status = []\<rparr>"

text \<open>
  The remote end: the outcome of the POST to a URL with a body, and the outcome of the
  \<open>n\<close>-th GET (counted from 0) to a URL. The authorization header is fixed once per client,
  so it is part of the gateway's behaviour.
\<close>

record Gateway =
  post_outcome :: "string \<Rightarrow> PaymentRequest \<Rightarrow> transport_error + InitResponse http_reply"
  get_outcome :: "nat \<Rightarrow> string \<Rightarrow> transport_error + StatusResponse http_reply"

record CampayClient =
  client :: Gateway
  config :: Config

definition NewCampayClient :: "Gateway \<Rightarrow> Config \<Rightarrow> CampayClient" where
  "NewCampayClient gw cfg = \<lparr>client = gw, config = cfg\<rparr>"

text \<open>What the program does to the outside, in the order it does it.\<close>

datatype event =
    Prompt string
  | PrintDetails PaymentRequest
  | PostCollect string PaymentRequest
  | PrintInitialized string
  | GetTransaction string
  | PrintPending int int
  | PrintFinal string

text \<open>
  The state threaded through a run: \<open>gets\<close> counts the status requests issued so far,
  \<open>selects\<close> counts the \<open>select\<close> statements executed so far, \<open>log\<close> is the trace.
\<close>

record world =
  gets :: nat
  selects :: nat
  log :: "event list"

definition emit :: "event \<Rightarrow> world \<Rightarrow> world" where
  "emit e w = w\<lparr>log := log w @ [e]\<rparr>"

datatype gateway_error =
    RequestFailed transport_error
  | APIError int string
  | NoReference string

definition InitiatePayment ::
  "CampayClient \<Rightarrow> PaymentRequest \<Rightarrow> world \<Rightarrow> (gateway_error + string) \<times> world" where
  "InitiatePayment c req w =
     (let url = BaseURL (config c) @ ''/collect/'';
          w1 = emit (PostCollect url req) w
      in case resty_execute zero_InitResponse (post_outcome (client c) url req) of
           Inl err \<Rightarrow> (Inl (RequestFailed err), w1)
         | Inr (resp, initResp) \<Rightarrow>
             if StatusCode resp < 200 \<or> StatusCode resp \<ge> 300
             then (Inl (APIError (StatusCode resp) (Message initResp)), w1)
             else if Reference initResp = []
             then (Inl (NoReference (Message initResp)), w1)
             else (Inr (Reference initResp), w1))"

definition CheckTransactionStatus ::
  "CampayClient \<Rightarrow> string \<Rightarrow> world \<Rightarrow> (gateway_error + string) \<times> world" where
  "CheckTransactionStatus c reference w =
     (let url = BaseURL (config c) @ ''/transaction/'' @ reference @ ''/'';
          w1 = emit (GetTransaction url) (w\<lparr>gets := gets w + 1\<rparr>)
      in case resty_execute zero_StatusResponse (get_outcome (client c) (gets w) url) of
           Inl err \<Rightarrow> (Inl (RequestFailed err), w1)
         | Inr (resp, statusResp) \<Rightarrow>
             if StatusCode resp < 200 \<or> StatusCode resp \<ge> 300
             then (Inl (APIError (StatusCode resp) (Body resp)), w1)
             else (Inr (Status statusResp), w1))"

section \<open>Poller\<close>

text \<open>
  A \<open>context.Context\<close> as the poller can observe it: \<open>ctx.Done()\<close> is never ready, or it is
  ready from the \<open>t\<close>-th \<open>select\<close> of the run on (counted from 0) and stays so, with
  \<open>ctx.Err()\<close> then \<open>Canceled\<close> or \<open>DeadlineExceeded\<close>. For the blocking \<open>select\<close> after an
  attempt, ready means that the context fired before the poll interval elapsed.
\<close>

datatype ctx_err = Canceled | DeadlineExceeded

datatype Context = NeverDone | DoneFrom nat ctx_err

fun Done :: "Context \<Rightarrow> nat \<Rightarrow> bool" where
  "Done NeverDone p = False"
| "Done (DoneFrom t e) p = (t \<le> p)"

fun Err :: "Context \<Rightarrow> nat \<Rightarrow> ctx_err option" where
  "Err NeverDone p = None"
| "Err (DoneFrom t e) p = (if t \<le> p then Some e else None)"

datatype poll_error =
    StatusCheckCancelled "ctx_err option"
  | CheckFailed gateway_error
  | TransactionTimeout "ctx_err option"
  | TimeoutAfterAttempts int

text \<open>The two result strings start with U+2713 and U+2717 in UTF-8.\<close>

definition msg_successful :: string where
  "msg_successful = [CHR 0xE2, CHR 0x9C, CHR 0x93] @ '' Transaction Successful''"

definition msg_failed :: string where
  "msg_failed = [CHR 0xE2, CHR 0x9C, CHR 0x97] @ '' Transaction Failed''"

text \<open>
  The loop of \<open>PollTransactionStatus\<close>, from a value of the local \<open>attempts\<close>. It returns the
  function's result, the final value of \<open>attempts\<close> and the world. \<open>attempts\<close> stays below
  \<open>MaxPollAttempts\<close> before each increment, so Go's \<open>int\<close> cannot overflow here.
\<close>

function poll_loop ::
  "CampayClient \<Rightarrow> Context \<Rightarrow> string \<Rightarrow> int \<Rightarrow> world \<Rightarrow> (poll_error + string) \<times> int \<times> world" where
  "poll_loop c ctx reference attempts w =
     (if attempts < MaxPollAttempts (config c) then
        (let p = selects w;
             w1 = w\<lparr>selects := p + 1\<rparr>
         in if Done ctx p then (Inl (StatusCheckCancelled (Err ctx p)), attempts, w1)
            else
              (case CheckTransactionStatus c reference w1 of
                 (Inl err, w2) \<Rightarrow> (Inl (CheckFailed err), attempts, w2)
               | (Inr status, w2) \<Rightarrow>
                   if status = ''SUCCESSFUL'' then (Inr msg_successful, attempts, w2)
                   else if status = ''FAILED'' then (Inr msg_failed, attempts, w2)
                   else
                     (let attempts' = attempts + 1;
                          w3 = emit (PrintPending attempts' (MaxPollAttempts (config c))) w2;
                          q = selects w3;
                          w4 = w3\<lparr>selects := q + 1\<rparr>
                      in if Done ctx q then (Inl (TransactionTimeout (Err ctx q)), attempts', w4)
                         else poll_loop c ctx reference attempts' w4)))
      else (Inl (TimeoutAfterAttempts (MaxPollAttempts (config c))), attempts, w))"
  by pat_completeness auto
termination
  by (relation "measure (\<lambda>(c, ctx, reference, attempts, w). nat (MaxPollAttempts (config c) - attempts))")
     auto

definition PollTransactionStatus ::
  "CampayClient \<Rightarrow> Context \<Rightarrow> string \<Rightarrow> world \<Rightarrow> (poll_error + string) \<times> int \<times> world" where
  "PollTransactionStatus c ctx reference w = poll_loop c ctx reference 0 w"

section \<open>Orchestrator\<close>

text \<open>
  What \<open>run\<close> reads from outside the program: whether \<open>os.Stat(".env")\<close> succeeds, the error
  of \<open>godotenv.Load()\<close> if any, \<open>os.Getenv\<close> as it answers afterwards, the bytes on standard
  input, the gateway, and the first \<open>select\<close> at which the deadline of
  \<open>context.WithTimeout\<close> has passed (\<open>None\<close> when the poll ends before it). The standard
  library's \<open>strings.TrimSpace\<close> and \<open>strconv.ParseFloat\<close> are parameters as well.
\<close>

record Env =
  dotenv_present :: bool
  dotenv_load_error :: "string option"
  Getenv :: "string \<Rightarrow> string"
  stdin :: string
  TrimSpace :: "string \<Rightarrow> string"
  ParseFloat :: parse_float
  gateway :: Gateway
  deadline_select :: "nat option"

definition defaultBaseURL :: string where
  "defaultBaseURL = ''https://demo.campay.net/api''"

text \<open>\<open>3 * time.Second\<close>, in nanoseconds.\<close>

definition pollInterval :: int where
  "pollInterval = 3 * 1000000000"

datatype config_error = DotenvLoadFailed string | APIKeyRequired

definition loadConfig :: "Env \<Rightarrow> config_error + Config" where
  "loadConfig env =
     (case (if dotenv_present env then dotenv_load_error env else None) of
        Some err \<Rightarrow> Inl (DotenvLoadFailed err)
      | None \<Rightarrow>
         (let apiKey = Getenv env ''API_KEY'' in
          if apiKey = [] then Inl APIKeyRequired
          else
            (let baseURL = Getenv env ''BASE_URL'';
                 baseURL = (if baseURL = [] then defaultBaseURL else baseURL)
             in Inr \<lparr>BaseURL = baseURL, APIKey = apiKey,
                      PollInterval = pollInterval, MaxPollAttempts = maxPollAttempts\<rparr>)))"

text \<open>
  \<open>bufio.Reader.ReadString(delim)\<close> on the remaining input: the bytes up to and including the
  first \<open>delim\<close>, or \<open>io.EOF\<close> when the input ends before one. It returns the rest of the
  input as well.
\<close>

datatype io_error = EOF

definition ReadString :: "string \<Rightarrow> char \<Rightarrow> (io_error + string) \<times> string" where
  "ReadString input delim =
     (if delim \<in> set input
      then (Inr (takeWhile (\<lambda>c. c \<noteq> delim) input @ [delim]),
            tl (dropWhile (\<lambda>c. c \<noteq> delim) input))
      else (Inl EOF, []))"

datatype input_error =
    ReadMobileNumberFailed io_error
  | ReadAmountFailed io_error
  | ReadDescriptionFailed io_error

definition getUserInput :: "Env \<Rightarrow> world \<Rightarrow> (input_error + PaymentRequest) \<times> world" where
  "getUserInput env w =
     (let w1 = emit (Prompt ''Enter mobile money number: '') w in
      case ReadString (stdin env) (CHR 0x0A) of
        (Inl err, rest1) \<Rightarrow> (Inl (ReadMobileNumberFailed err), w1)
      | (Inr momoNumber, rest1) \<Rightarrow>
         (let momoNumber = TrimSpace env momoNumber;
              w2 = emit (Prompt ''Enter amount: '') w1 in
          case ReadString rest1 (CHR 0x0A) of
            (Inl err, rest2) \<Rightarrow> (Inl (ReadAmountFailed err), w2)
          | (Inr amount, rest2) \<Rightarrow>
             (let amount = TrimSpace env amount;
                  w3 = emit (Prompt ''Enter description: '') w2 in
              case ReadString rest2 (CHR 0x0A) of
                (Inl err, rest3) \<Rightarrow> (Inl (ReadDescriptionFailed err), w3)
              | (Inr description, rest3) \<Rightarrow>
                 (let description = TrimSpace env description
                  in (Inr \<lparr>Amount = amount, From = momoNumber, Description = description\<rparr>,
                      w3)))))"

datatype run_error =
    LoadConfigFailed config_error
  | UserInputFailed input_error
  | ValidationFailed validation_error
  | InitiateFailed gateway_error
  | StatusFailed poll_error

definition world0 :: world where
  "world0 = \<lparr>gets = 0, selects = 0, log = []\<rparr>"

definition WithTimeout :: "nat option \<Rightarrow> Context" where
  "WithTimeout d = (case d of None \<Rightarrow> NeverDone | Some t \<Rightarrow> DoneFrom t DeadlineExceeded)"

text \<open>\<open>run\<close> returns its error (\<open>None\<close> is \<open>nil\<close>) and the world it leaves.\<close>

definition run :: "Env \<Rightarrow> run_error option \<times> world" where
  "run env =
     (case loadConfig env of
        Inl err \<Rightarrow> (Some (LoadConfigFailed err), world0)
      | Inr cfg \<Rightarrow>
         (let c = NewCampayClient (gateway env) cfg in
          case getUserInput env world0 of
            (Inl err, w1) \<Rightarrow> (Some (UserInputFailed err), w1)
          | (Inr paymentReq, w1) \<Rightarrow>
             (case validatePaymentRequest (ParseFloat env) paymentReq of
                Some err \<Rightarrow> (Some (ValidationFailed err), w1)
              | None \<Rightarrow>
                 (let w2 = emit (PrintDetails paymentReq) w1 in
                  case InitiatePayment c paymentReq w2 of
                    (Inl err, w3) \<Rightarrow> (Some (InitiateFailed err), w3)
                  | (Inr reference, w3) \<Rightarrow>
                     (let w4 = emit (PrintInitialized reference) w3;
                          ctx = WithTimeout (deadline_select env) in
                      case PollTransactionStatus c ctx reference w4 of
                        (Inl err, attempts, w5) \<Rightarrow> (Some (StatusFailed err), w5)
                      | (Inr status, attempts, w5) \<Rightarrow> (None, emit (PrintFinal status) w5))))))"

text \<open>
  \<open>main\<close>: the exit code of the process, what it writes to standard error, and the world.
  Returning from \<open>main\<close> is exit code 0.
\<close>

definition main :: "Env \<Rightarrow> int \<times> run_error option \<times> world" where
  "main env =
     (case run env of
        (Some err, w) \<Rightarrow> (1, Some err, w)
      | (None, w) \<Rightarrow> (0, None, w))"

section \<open>Notions used to state the properties\<close>

text \<open>The normalized form of a phone number: spaces, hyphens and plus signs deleted.\<close>

definition normalized :: "string \<Rightarrow> string" where
  "normalized phone = filter (\<lambda>c. c \<noteq> CHR '' '' \<and> c \<noteq> CHR ''-'' \<and> c \<noteq> CHR ''+'') phone"

text \<open>The status requests and the network calls in a trace.\<close>

fun is_status_call :: "event \<Rightarrow> bool" where
  "is_status_call (GetTransaction url) = True"
| "is_status_call _ = False"

fun is_network_call :: "event \<Rightarrow> bool" where
  "is_network_call (GetTransaction url) = True"
| "is_network_call (PostCollect url body) = True"
| "is_network_call _ = False"

definition status_calls :: "world \<Rightarrow> nat" where
  "status_calls w = length (filter is_status_call (log w))"

definition network_calls :: "world \<Rightarrow> event list" where
  "network_calls w = filter is_network_call (log w)"

text \<open>What the \<open>n\<close>-th call of \<open>CheckTransactionStatus\<close> (counted from 0) returns.\<close>

definition check_result :: "CampayClient \<Rightarrow> string \<Rightarrow> nat \<Rightarrow> gateway_error + string" where
  "check_result c reference n =
     fst (CheckTransactionStatus c reference \<lparr>gets = n, selects = 0, log = []\<rparr>)"

definition terminal :: "string \<Rightarrow> bool" where
  "terminal status = (status = ''SUCCESSFUL'' \<or> status = ''FAILED'')"

text \<open>A check that returns a status with no error, and the status is not terminal.\<close>

definition pending_result :: "gateway_error + string \<Rightarrow> bool" where
  "pending_result r = (case r of Inl err \<Rightarrow> False | Inr status \<Rightarrow> \<not> terminal status)"

text \<open>The world in which \<open>run\<close> starts the poll: no status request and no \<open>select\<close> yet.\<close>

definition poll_start :: "event list \<Rightarrow> world" where
  "poll_start l = \<lparr>gets = 0, selects = 0, log = l\<rparr>"

text \<open>The URL of a status request, and the world after one or several loop iterations.\<close>

definition status_url :: "CampayClient \<Rightarrow> string \<Rightarrow> string" where
  "status_url c reference = BaseURL (config c) @ ''/transaction/'' @ reference @ ''/''"

text \<open>After the first \<open>select\<close> and the status request of an iteration.\<close>

definition after_check :: "CampayClient \<Rightarrow> string \<Rightarrow> world \<Rightarrow> world" where
  "after_check c reference w =
     w\<lparr>gets := gets w + 1,
       log := log w @ [GetTransaction (status_url c reference)],
       selects := selects w + 1\<rparr>"

text \<open>After a whole iteration that found a status that is not terminal.\<close>

definition after_attempt :: "CampayClient \<Rightarrow> string \<Rightarrow> int \<Rightarrow> world \<Rightarrow> world" where
  "after_attempt c reference attempts w =
     w\<lparr>gets := gets w + 1,
       log := log w @ [GetTransaction (status_url c reference),
                       PrintPending (attempts + 1) (MaxPollAttempts (config c))],
       selects := selects w + 2\<rparr>"

fun after_attempts :: "CampayClient \<Rightarrow> string \<Rightarrow> int \<Rightarrow> nat \<Rightarrow> world \<Rightarrow> world" where
  "after_attempts c reference attempts 0 w = w"
| "after_attempts c reference attempts (Suc k) w =
     after_attempts c reference (attempts + 1) k (after_attempt c reference attempts w)"

text \<open>
  The same client in front of a gateway that answers \<open>PENDING\<close> wherever the original
  gateway's answer makes \<open>CheckTransactionStatus\<close> return a status that is not terminal.
\<close>

definition as_pending :: "CampayClient \<Rightarrow> CampayClient" where
  "as_pending c =
     c\<lparr>client := (client c)\<lparr>get_outcome := (\<lambda>n url.
          case resty_execute zero_StatusResponse (get_outcome (client c) n url) of
            Inl err \<Rightarrow> get_outcome (client c) n url
          | Inr (resp, statusResp) \<Rightarrow>
              if StatusCode resp < 200 \<or> StatusCode resp \<ge> 300 \<or> terminal (Status statusResp)
              then get_outcome (client c) n url
              else Inr \<lparr>StatusCode = 200, JSONContent = True, Body = [],
                        Decoded = Some \<lparr>Status = ''PENDING''\<rparr>\<rparr>)\<rparr>\<rparr>"

text \<open>The reference field that the body of a reply provides; empty when it provides none.\<close>

definition body_reference :: "InitResponse http_reply \<Rightarrow> string" where
  "body_reference resp = (case Decoded resp of None \<Rightarrow> [] | Some v \<Rightarrow> Reference v)"

text \<open>The message field that the body of a reply provides; empty when it provides none.\<close>

definition body_message :: "InitResponse http_reply \<Rightarrow> string" where
  "body_message resp = (case Decoded resp of None \<Rightarrow> [] | Some v \<Rightarrow> Message v)"

text \<open>The URL of the initiation request.\<close>

definition collect_url :: "CampayClient \<Rightarrow> string" where
  "collect_url c = BaseURL (config c) @ ''/collect/''"

text \<open>
  An HTTP 400 reply with the JSON body \<open>{"message":"invalid credentials"}\<close>, and a gateway
  that answers every initiation with it.
\<close>

definition reply_400 :: "InitResponse http_reply" where
  "reply_400 =
     \<lparr>StatusCode = 400, JSONContent = True,
      Body = [CHR ''{'', CHR 0x22] @ ''message'' @ [CHR 0x22, CHR '':'', CHR 0x22]
               @ ''invalid credentials'' @ [CHR 0x22, CHR ''}''],
      Decoded = Some \<lparr>Reference = [], InitStatus = [], Message = ''invalid credentials''\<rparr>\<rparr>"

definition gateway_400 :: Gateway where
  "gateway_400 =
     \<lparr>post_outcome = (\<lambda>url body. Inr reply_400),
      get_outcome = (\<lambda>n url. Inl (NetworkError []))\<rparr>"

text \<open>
  A gateway stub for the status requests: it answers the \<open>n\<close>-th one with HTTP 200 and a
  JSON body whose status field is \<open>statuses n\<close>. The client around it has the given
  \<open>MaxPollAttempts\<close>.
\<close>

definition stub_reply :: "string \<Rightarrow> StatusResponse http_reply" where
  "stub_reply status =
     \<lparr>StatusCode = 200, JSONContent = True, Body = [], Decoded = Some \<lparr>Status = status\<rparr>\<rparr>"

definition stub_client :: "(nat \<Rightarrow> string) \<Rightarrow> int \<Rightarrow> CampayClient" where
  "stub_client statuses n =
     \<lparr>client = \<lparr>post_outcome = (\<lambda>url body. Inl (NetworkError [])),
                get_outcome = (\<lambda>i url. Inr (stub_reply (statuses i)))\<rparr>,
      config = \<lparr>BaseURL = defaultBaseURL, APIKey = ''key'',
                PollInterval = pollInterval, MaxPollAttempts = n\<rparr>\<rparr>"

text \<open>
  Replies to the initiation request with HTTP 200 and a JSON body: one with the reference
  \<open>abc123\<close>, one with only a message.
\<close>

definition reply_ok :: "InitResponse http_reply" where
  "reply_ok =
     \<lparr>StatusCode = 200, JSONContent = True, Body = [],
      Decoded = Some \<lparr>Reference = ''abc123'', InitStatus = ''PENDING'', Message = []\<rparr>\<rparr>"

definition reply_no_reference :: "InitResponse http_reply" where
  "reply_no_reference =
     \<lparr>StatusCode = 200, JSONContent = True, Body = [],
      Decoded = Some \<lparr>Reference = [], InitStatus = [], Message = ''try again''\<rparr>\<rparr>"

definition gateway_replying :: "InitResponse http_reply \<Rightarrow> Gateway" where
  "gateway_replying resp =
     \<lparr>post_outcome = (\<lambda>url body. Inr resp),
      get_outcome = (\<lambda>n url. Inr (stub_reply ''SUCCESSFUL''))\<rparr>"

text \<open>
  An environment for \<open>run\<close>: an API key, no \<open>.env\<close> file, and a user who types the phone
  number \<open>12345\<close>, the amount \<open>500\<close> and the description \<open>test\<close>, each followed by a newline.
  \<open>TrimSpace\<close> is stood in for by the deletion of newlines, which is what it does to these
  three lines.
\<close>

definition env_short_phone :: Env where
  "env_short_phone =
     \<lparr>dotenv_present = False, dotenv_load_error = None,
      Getenv = (\<lambda>k. if k = ''API_KEY'' then ''secret'' else []),
      stdin = ''12345'' @ [CHR 0x0A] @ ''500'' @ [CHR 0x0A] @ ''test'' @ [CHR 0x0A],
      TrimSpace = filter (\<lambda>c. c \<noteq> CHR 0x0A),
      ParseFloat = (\<lambda>s. if s = ''500'' then Inr (Finite 500) else Inl ErrSyntax),
      gateway = gateway_replying reply_ok,
      deadline_select = None\<rparr>"

text \<open>
  The characters of a string that is well-formed UTF-8: every character is one byte that is
  not a continuation byte (\<open>0x80\<close> to \<open>0xBF\<close>), followed by its continuation bytes. This
  is what \<open>utf8.RuneCountInString\<close> counts, where \<open>len\<close> counts the bytes.
\<close>

definition is_continuation :: "char \<Rightarrow> bool" where
  "is_continuation c = (0x80 \<le> (of_char c :: nat) \<and> (of_char c :: nat) < 0xC0)"

definition characters :: "string \<Rightarrow> nat" where
  "characters s = length (filter (\<lambda>c. \<not> is_continuation c) s)"

text \<open>The euro sign U+20AC, three bytes in UTF-8, and a description of \<open>n\<close> of them.\<close>

definition euro_sign :: string where
  "euro_sign = [CHR 0xE2, CHR 0x82, CHR 0xAC]"

definition euros :: "nat \<Rightarrow> string" where
  "euros n = concat (replicate n euro_sign)"

section \<open>Validator: properties\<close>

lemma ReplaceAll_delete: "ReplaceAll s old [] = filter (\<lambda>c. c \<noteq> old) s"
  by (induction s) simp_all

lemma ReplaceAll_thrice:
  "ReplaceAll (ReplaceAll (ReplaceAll phone (CHR '' '') []) (CHR ''-'') []) (CHR ''+'') []
     = normalized phone"
  by (simp add: ReplaceAll_delete normalized_def conj_commute conj_left_commute)

lemma validatePhoneNumber_normalized:
  "validatePhoneNumber phone =
     (if phone = [] then Some PhoneEmpty
      else if length (normalized phone) < 9 then Some PhoneTooShort
      else if \<not> HasPrefix (normalized phone) ''237'' \<and> \<not> HasPrefix (normalized phone) ''6''
           then Some PhoneBadFormat
      else None)"
  by (simp add: validatePhoneNumber_def ReplaceAll_thrice minPhoneLength_def Let_def)

text \<open>
  C3. \<open>validatePhoneNumber\<close> rejects a phone string exactly when it is empty, or its
  normalized form (spaces, hyphens and plus signs removed) is shorter than 9 bytes, or its
  normalized form starts with neither "237" nor "6". Every other phone string is accepted.
\<close>

theorem validatePhoneNumber_rejects_iff:
  "(validatePhoneNumber phone \<noteq> None) =
     (phone = [] \<or> length (normalized phone) < 9 \<or>
      (\<not> HasPrefix (normalized phone) ''237'' \<and> \<not> HasPrefix (normalized phone) ''6''))"
  by (simp add: validatePhoneNumber_normalized)

theorem validatePhoneNumber_rejects_iff_witness:
  "validatePhoneNumber ''+237 677-123-456'' = None \<and>
   validatePhoneNumber ''677123456'' = None \<and>
   validatePhoneNumber ''67712345'' \<noteq> None \<and>
   validatePhoneNumber ''+1 202 555 0101'' \<noteq> None \<and>
   validatePhoneNumber [] \<noteq> None"
  using validatePhoneNumber_rejects_iff [of "''+237 677-123-456''"]
        validatePhoneNumber_rejects_iff [of "''677123456''"]
        validatePhoneNumber_rejects_iff [of "''67712345''"]
        validatePhoneNumber_rejects_iff [of "''+1 202 555 0101''"]
        validatePhoneNumber_rejects_iff [of "[]"]
  by (simp add: normalized_def HasPrefix_def)

text \<open>
  C4. \<open>validateAmount\<close> rejects an amount string exactly when it is empty, or
  \<open>ParseFloat\<close> returns an error for it, or the parsed value is \<open><= 0\<close>; every other amount
  string is accepted, in particular every one that parses to a positive number. (Go's
  comparison is false for NaN, so a string that parses to NaN is among those accepted.)
\<close>

theorem validateAmount_rejects_iff:
  "(validateAmount pf amount \<noteq> None) =
     (amount = [] \<or> (case pf amount of Inl err \<Rightarrow> True | Inr val \<Rightarrow> f64_le val (Finite 0)))
   \<and> (amount \<noteq> [] \<and> pf amount = Inr (Finite x) \<and> 0 < x \<longrightarrow> validateAmount pf amount = None)
   \<and> (amount \<noteq> [] \<and> pf amount = Inr PosInf \<longrightarrow> validateAmount pf amount = None)"
  by (simp add: validateAmount_def minAmount_def split: sum.splits)

text \<open>A stand-in for \<open>ParseFloat\<close> on four inputs, to run the theorem on.\<close>

theorem validateAmount_rejects_iff_witness:
  "(let pf = (\<lambda>s. if s = ''500'' then Inr (Finite 500)
                   else if s = ''0'' then Inr (Finite 0)
                   else if s = ''-5'' then Inr (Finite (- 5))
                   else if s = ''+Inf'' then Inr PosInf
                   else Inl ErrSyntax)
    in validateAmount pf ''500'' = None
     \<and> validateAmount pf ''+Inf'' = None
     \<and> validateAmount pf ''0'' \<noteq> None
     \<and> validateAmount pf ''-5'' \<noteq> None
     \<and> validateAmount pf ''abc'' \<noteq> None
     \<and> validateAmount pf [] \<noteq> None)"
proof -
  define pf :: parse_float where
    "pf = (\<lambda>s. if s = ''500'' then Inr (Finite 500)
               else if s = ''0'' then Inr (Finite 0)
               else if s = ''-5'' then Inr (Finite (- 5))
               else if s = ''+Inf'' then Inr PosInf
               else Inl ErrSyntax)"
  have "validateAmount pf ''500'' = None"
    using validateAmount_rejects_iff [of pf "''500''" 500] by (simp add: pf_def)
  moreover have "validateAmount pf ''+Inf'' = None"
    using validateAmount_rejects_iff [of pf "''+Inf''"] by (simp add: pf_def)
  moreover have "validateAmount pf ''0'' \<noteq> None"
    using validateAmount_rejects_iff [of pf "''0''"] by (simp add: pf_def)
  moreover have "validateAmount pf ''-5'' \<noteq> None"
    using validateAmount_rejects_iff [of pf "''-5''"] by (simp add: pf_def)
  moreover have "validateAmount pf ''abc'' \<noteq> None"
    using validateAmount_rejects_iff [of pf "''abc''"] by (simp add: pf_def)
  moreover have "validateAmount pf [] \<noteq> None"
    using validateAmount_rejects_iff [of pf "[]"] by simp
  ultimately show ?thesis
    unfolding pf_def Let_def by simp
qed

text \<open>
  In bytes, \<open>validateDescription\<close> rejects a description exactly when it is empty or
  longer than 200.
\<close>

lemma validateDescription_bytes:
  "(validateDescription description \<noteq> None) = (description = [] \<or> 200 < length description)"
  by (simp add: validateDescription_def)

lemma length_euros: "length (euros n) = 3 * n"
  by (induction n) (simp_all add: euros_def euro_sign_def)

lemma characters_append: "characters (xs @ ys) = characters xs + characters ys"
  by (simp add: characters_def)

lemma characters_euros: "characters (euros n) = n"
proof (induction n)
  case 0
  then show ?case by (simp add: euros_def characters_def)
next
  case (Suc n)
  have "characters euro_sign = 1"
    by (simp add: characters_def euro_sign_def is_continuation_def)
  moreover have "euros (Suc n) = euro_sign @ euros n"
    by (simp add: euros_def)
  ultimately show ?case
    using Suc.IH by (simp add: characters_append)
qed

text \<open>
  For ASCII text the two counts agree, so there the bound is 200 characters.
\<close>

lemma characters_ascii: "\<forall>c \<in> set s. (of_char c :: nat) < 0x80 \<Longrightarrow> characters s = length s"
  by (induction s) (simp_all add: characters_def is_continuation_def)

text \<open>
  C5, at a description of 67 euro signs: it has 67 characters, which is between 1 and 200,
  and 201 bytes, and \<open>validateDescription\<close> rejects it as too long. The bound of the code
  is 200 bytes (\<open>len\<close>), not 200 characters as its error message and the claim say.
\<close>

theorem validateDescription_rejects_67_characters:
  "validateDescription (euros 67) = Some DescriptionTooLong
   \<and> characters (euros 67) = 67 \<and> length (euros 67) = 201"
proof (intro conjI)
  have len: "length (euros 67) = 201"
    by (simp add: length_euros)
  then have "euros 67 \<noteq> []"
    by auto
  with len show "validateDescription (euros 67) = Some DescriptionTooLong"
    by (simp add: validateDescription_def)
  show "characters (euros 67) = 67"
    by (rule characters_euros)
  show "length (euros 67) = 201"
    by (rule len)
qed

section \<open>Poller: one iteration\<close>

declare poll_loop.simps [simp del]

lemma CheckTransactionStatus_eq:
  "CheckTransactionStatus c reference w =
     (check_result c reference (gets w),
      w\<lparr>gets := gets w + 1, log := log w @ [GetTransaction (status_url c reference)]\<rparr>)"
  by (simp add: CheckTransactionStatus_def check_result_def status_url_def emit_def Let_def
           split: sum.splits prod.splits)

lemma Done_mono: "Done ctx p \<Longrightarrow> p \<le> q \<Longrightarrow> Done ctx q"
  by (cases ctx) simp_all

lemma poll_loop_exhausted:
  "\<not> attempts < MaxPollAttempts (config c) \<Longrightarrow>
   poll_loop c ctx reference attempts w =
     (Inl (TimeoutAfterAttempts (MaxPollAttempts (config c))), attempts, w)"
  by (subst poll_loop.simps) simp

lemma poll_loop_cancelled:
  "attempts < MaxPollAttempts (config c) \<Longrightarrow> Done ctx (selects w) \<Longrightarrow>
   poll_loop c ctx reference attempts w =
     (Inl (StatusCheckCancelled (Err ctx (selects w))), attempts, w\<lparr>selects := selects w + 1\<rparr>)"
  by (subst poll_loop.simps) (simp add: Let_def)

lemma poll_loop_check_failed:
  "attempts < MaxPollAttempts (config c) \<Longrightarrow> \<not> Done ctx (selects w) \<Longrightarrow>
   check_result c reference (gets w) = Inl err \<Longrightarrow>
   poll_loop c ctx reference attempts w = (Inl (CheckFailed err), attempts, after_check c reference w)"
  by (subst poll_loop.simps) (simp add: Let_def CheckTransactionStatus_eq after_check_def)

lemma poll_loop_terminal:
  "attempts < MaxPollAttempts (config c) \<Longrightarrow> \<not> Done ctx (selects w) \<Longrightarrow>
   check_result c reference (gets w) = Inr status \<Longrightarrow> terminal status \<Longrightarrow>
   poll_loop c ctx reference attempts w =
     (Inr (if status = ''SUCCESSFUL'' then msg_successful else msg_failed),
      attempts, after_check c reference w)"
  by (subst poll_loop.simps)
     (auto simp add: Let_def CheckTransactionStatus_eq after_check_def terminal_def)

lemma poll_loop_pending:
  "attempts < MaxPollAttempts (config c) \<Longrightarrow> \<not> Done ctx (selects w) \<Longrightarrow>
   check_result c reference (gets w) = Inr status \<Longrightarrow> \<not> terminal status \<Longrightarrow>
   poll_loop c ctx reference attempts w =
     (if Done ctx (selects w + 1)
      then (Inl (TransactionTimeout (Err ctx (selects w + 1))), attempts + 1,
            after_attempt c reference attempts w)
      else poll_loop c ctx reference (attempts + 1) (after_attempt c reference attempts w))"
  by (subst poll_loop.simps)
     (simp add: Let_def CheckTransactionStatus_eq after_attempt_def terminal_def emit_def)

text \<open>
  Induction along the loop: a property of every state that ends the loop, carried back over
  an iteration that continues, holds of every state.
\<close>

lemma poll_loop_induct [case_names stop continue]:
  assumes stop: "\<And>attempts w.
      \<not> (attempts < MaxPollAttempts (config c) \<and> \<not> Done ctx (selects w) \<and>
         pending_result (check_result c reference (gets w)) \<and> \<not> Done ctx (selects w + 1))
      \<Longrightarrow> P attempts w"
    and continue: "\<And>attempts w status.
      attempts < MaxPollAttempts (config c) \<Longrightarrow> \<not> Done ctx (selects w) \<Longrightarrow>
      check_result c reference (gets w) = Inr status \<Longrightarrow> \<not> terminal status \<Longrightarrow>
      \<not> Done ctx (selects w + 1) \<Longrightarrow>
      P (attempts + 1) (after_attempt c reference attempts w) \<Longrightarrow> P attempts w"
  shows "P attempts w"
proof (induction "nat (MaxPollAttempts (config c) - attempts)" arbitrary: attempts w)
  case (0 attempts w)
  then have "\<not> attempts < MaxPollAttempts (config c)" by simp
  then show ?case by (simp add: stop)
next
  case (Suc n attempts w)
  show ?case
  proof (cases "attempts < MaxPollAttempts (config c) \<and> \<not> Done ctx (selects w) \<and>
         pending_result (check_result c reference (gets w)) \<and> \<not> Done ctx (selects w + 1)")
    case False
    then show ?thesis by (rule stop)
  next
    case True
    then obtain status where st: "check_result c reference (gets w) = Inr status" "\<not> terminal status"
      by (auto simp: pending_result_def split: sum.splits)
    have "n = nat (MaxPollAttempts (config c) - (attempts + 1))"
      using Suc.hyps(2) by linarith
    then have "P (attempts + 1) (after_attempt c reference attempts w)"
      by (rule Suc.hyps(1))
    with True st show ?thesis
      by (simp add: continue [of attempts w status])
  qed
qed

text \<open>What an iteration that ends the loop returns, case by case.\<close>

lemma poll_loop_stop_cases:
  assumes "\<not> (attempts < MaxPollAttempts (config c) \<and> \<not> Done ctx (selects w) \<and>
         pending_result (check_result c reference (gets w)) \<and> \<not> Done ctx (selects w + 1))"
  obtains
    (exhausted) "\<not> attempts < MaxPollAttempts (config c)"
      "poll_loop c ctx reference attempts w =
         (Inl (TimeoutAfterAttempts (MaxPollAttempts (config c))), attempts, w)"
  | (cancelled) "attempts < MaxPollAttempts (config c)" "Done ctx (selects w)"
      "poll_loop c ctx reference attempts w =
         (Inl (StatusCheckCancelled (Err ctx (selects w))), attempts, w\<lparr>selects := selects w + 1\<rparr>)"
  | (failed) err where "attempts < MaxPollAttempts (config c)" "\<not> Done ctx (selects w)"
      "check_result c reference (gets w) = Inl err"
      "poll_loop c ctx reference attempts w =
         (Inl (CheckFailed err), attempts, after_check c reference w)"
  | (terminal) status where "attempts < MaxPollAttempts (config c)" "\<not> Done ctx (selects w)"
      "check_result c reference (gets w) = Inr status" "terminal status"
      "poll_loop c ctx reference attempts w =
         (Inr (if status = ''SUCCESSFUL'' then msg_successful else msg_failed),
          attempts, after_check c reference w)"
  | (timeout) status where "attempts < MaxPollAttempts (config c)" "\<not> Done ctx (selects w)"
      "check_result c reference (gets w) = Inr status" "\<not> terminal status"
      "Done ctx (selects w + 1)"
      "poll_loop c ctx reference attempts w =
         (Inl (TransactionTimeout (Err ctx (selects w + 1))), attempts + 1,
          after_attempt c reference attempts w)"
proof (cases "attempts < MaxPollAttempts (config c)")
  case False
  then show ?thesis using exhausted poll_loop_exhausted by blast
next
  case lt: True
  show ?thesis
  proof (cases "Done ctx (selects w)")
    case True
    with lt show ?thesis using cancelled poll_loop_cancelled by blast
  next
    case nd: False
    show ?thesis
    proof (cases "check_result c reference (gets w)")
      case (Inl err)
      with lt nd show ?thesis using failed poll_loop_check_failed by blast
    next
      case (Inr status)
      show ?thesis
      proof (cases "terminal status")
        case True
        with lt nd Inr show ?thesis using terminal poll_loop_terminal by blast
      next
        case False
        with assms lt nd Inr have d: "Done ctx (selects w + 1)"
          by (simp add: pending_result_def)
        from lt nd Inr False d show ?thesis
          using timeout poll_loop_pending [of attempts c ctx w reference status] by simp
      qed
    qed
  qed
qed

section \<open>Poller: counting requests\<close>

lemma status_calls_selects [simp]: "status_calls (w\<lparr>selects := n\<rparr>) = status_calls w"
  by (simp add: status_calls_def)

lemma status_calls_after_check [simp]:
  "status_calls (after_check c reference w) = status_calls w + 1"
  by (simp add: status_calls_def after_check_def)

lemma status_calls_after_attempt [simp]:
  "status_calls (after_attempt c reference attempts w) = status_calls w + 1"
  by (simp add: status_calls_def after_attempt_def)

lemma gets_after_attempt [simp]: "gets (after_attempt c reference attempts w) = gets w + 1"
  by (simp add: after_attempt_def)

lemma selects_after_attempt [simp]:
  "selects (after_attempt c reference attempts w) = selects w + 2"
  by (simp add: after_attempt_def)

lemma gets_after_attempts [simp]:
  "gets (after_attempts c reference attempts k w) = gets w + k"
  by (induction k arbitrary: attempts w) simp_all

lemma selects_after_attempts [simp]:
  "selects (after_attempts c reference attempts k w) = selects w + 2 * k"
  by (induction k arbitrary: attempts w) simp_all

lemma status_calls_after_attempts [simp]:
  "status_calls (after_attempts c reference attempts k w) = status_calls w + k"
  by (induction k arbitrary: attempts w) simp_all

lemma status_calls_poll_start: "status_calls (poll_start l) = length (filter is_status_call l)"
  by (simp add: status_calls_def poll_start_def)

text \<open>The loop issues at most as many status requests as there are attempts left.\<close>

lemma poll_loop_calls_le:
  "status_calls (snd (snd (poll_loop c ctx reference attempts w)))
     \<le> status_calls w + nat (MaxPollAttempts (config c) - attempts)"
proof (induction attempts w rule: poll_loop_induct [where c = c and ctx = ctx and reference = reference])
  case (stop attempts w)
  then show ?case
    by (cases rule: poll_loop_stop_cases) simp_all
next
  case (continue attempts w status)
  have "poll_loop c ctx reference attempts w =
        poll_loop c ctx reference (attempts + 1) (after_attempt c reference attempts w)"
    using continue.hyps by (simp add: poll_loop_pending)
  moreover have "1 + nat (MaxPollAttempts (config c) - (attempts + 1)) =
        nat (MaxPollAttempts (config c) - attempts)"
    using continue.hyps(1) by linarith
  ultimately show ?case
    using continue.IH by simp
qed

text \<open>
  Once the context is done from the \<open>t\<close>-th \<open>select\<close> on, every status request costs two
  of the \<open>select\<close>s that are left before \<open>t\<close>.
\<close>

lemma poll_loop_calls_done:
  "2 * status_calls (snd (snd (poll_loop c (DoneFrom t e) reference attempts w)))
     \<le> 2 * status_calls w + (t + 1 - selects w)"
proof (induction attempts w
    rule: poll_loop_induct [where c = c and ctx = "DoneFrom t e" and reference = reference])
  case (stop attempts w)
  then show ?case
    by (cases rule: poll_loop_stop_cases) auto
next
  case (continue attempts w status)
  have "poll_loop c (DoneFrom t e) reference attempts w =
        poll_loop c (DoneFrom t e) reference (attempts + 1) (after_attempt c reference attempts w)"
    using continue.hyps by (simp add: poll_loop_pending)
  moreover have "selects w + 2 \<le> t"
    using continue.hyps(5) by simp
  ultimately show ?case
    using continue.IH by simp
qed

text \<open>
  \<open>k\<close> iterations in a row that find a status that is not terminal, with the context not
  done and the budget not used up: the loop is where \<open>after_attempts\<close> says.
\<close>

lemma poll_loop_pending_steps:
  "attempts + int k \<le> MaxPollAttempts (config c) \<Longrightarrow>
   (\<forall>i<k. pending_result (check_result c reference (gets w + i))) \<Longrightarrow>
   (\<forall>p. p < selects w + 2 * k \<longrightarrow> \<not> Done ctx p) \<Longrightarrow>
   poll_loop c ctx reference attempts w =
     poll_loop c ctx reference (attempts + int k) (after_attempts c reference attempts k w)"
proof (induction k arbitrary: attempts w)
  case 0
  then show ?case by simp
next
  case (Suc k)
  from Suc.prems(2) have "pending_result (check_result c reference (gets w + 0))"
    by blast
  then obtain status where
    st: "check_result c reference (gets w) = Inr status" "\<not> terminal status"
    by (cases "check_result c reference (gets w)") (simp_all add: pending_result_def)
  have lt: "attempts < MaxPollAttempts (config c)"
    using Suc.prems(1) by simp
  have nd: "\<not> Done ctx (selects w)" "\<not> Done ctx (selects w + 1)"
    using Suc.prems(3) by simp_all
  have step: "poll_loop c ctx reference attempts w =
      poll_loop c ctx reference (attempts + 1) (after_attempt c reference attempts w)"
    using lt nd st by (simp add: poll_loop_pending)
  have "poll_loop c ctx reference (attempts + 1) (after_attempt c reference attempts w) =
      poll_loop c ctx reference (attempts + 1 + int k)
        (after_attempts c reference (attempts + 1) k (after_attempt c reference attempts w))"
  proof (rule Suc.IH)
    show "attempts + 1 + int k \<le> MaxPollAttempts (config c)"
      using Suc.prems(1) by simp
    show "\<forall>i<k. pending_result
        (check_result c reference (gets (after_attempt c reference attempts w) + i))"
    proof (intro allI impI)
      fix i assume "i < k"
      then have "pending_result (check_result c reference (gets w + Suc i))"
        using Suc.prems(2) by blast
      then show "pending_result
          (check_result c reference (gets (after_attempt c reference attempts w) + i))"
        by simp
    qed
    show "\<forall>p. p < selects (after_attempt c reference attempts w) + 2 * k \<longrightarrow> \<not> Done ctx p"
      using Suc.prems(3) by simp
  qed
  with step show ?case
    by (simp add: add.assoc)
qed

section \<open>Poller: properties\<close>

text \<open>
  The \<open>select\<close>s of a poll are numbered from 0: number \<open>2 * i\<close> is the check of the
  context before the \<open>i\<close>-th status request, number \<open>2 * i + 1\<close> is the wait after it. So
  \<open>(t + 1) div 2\<close> requests are issued before the \<open>select\<close> numbered \<open>t\<close>.
\<close>

lemma check_result_stub [simp]: "check_result (stub_client statuses n) reference i = Inr (statuses i)"
  by (simp add: check_result_def CheckTransactionStatus_def stub_client_def stub_reply_def
        resty_execute_def resty_result_def Let_def)

lemma MaxPollAttempts_stub [simp]: "MaxPollAttempts (config (stub_client statuses n)) = n"
  by (simp add: stub_client_def)

lemma selects_poll_start [simp]: "selects (poll_start l) = 0"
  by (simp add: poll_start_def)

lemma gets_poll_start [simp]: "gets (poll_start l) = 0"
  by (simp add: poll_start_def)

lemma pending_PENDING [simp]: "pending_result (Inr ''PENDING'')"
  by (simp add: pending_result_def terminal_def)

lemma not_Done_below: "\<not> Done ctx q \<Longrightarrow> \<forall>p. p < q \<longrightarrow> \<not> Done ctx p"
  by (cases ctx) simp_all

text \<open>Three iterations that find PENDING with a budget of three.\<close>

lemma poll_three_pending:
  assumes max: "MaxPollAttempts (config c) = 3"
    and pend: "\<forall>n. check_result c reference n = Inr ''PENDING''"
    and nd: "\<not> Done ctx 4"
  shows "poll_loop c ctx reference 0 (poll_start l) =
     (if Done ctx 5
      then (Inl (TransactionTimeout (Err ctx 5)), 3,
            after_attempt c reference 2 (after_attempts c reference 0 2 (poll_start l)))
      else (Inl (TimeoutAfterAttempts 3), 3,
            after_attempt c reference 2 (after_attempts c reference 0 2 (poll_start l))))"
proof -
  let ?w2 = "after_attempts c reference 0 2 (poll_start l)"
  have "\<forall>p. p < selects (poll_start l) + 2 * 2 \<longrightarrow> \<not> Done ctx p"
    using not_Done_below [OF nd] by simp
  then have two: "poll_loop c ctx reference 0 (poll_start l) = poll_loop c ctx reference 2 ?w2"
    using poll_loop_pending_steps [of 0 2 c reference "poll_start l" ctx] max pend by simp
  have third: "poll_loop c ctx reference 2 ?w2 =
     (if Done ctx 5
      then (Inl (TransactionTimeout (Err ctx 5)), 3, after_attempt c reference 2 ?w2)
      else poll_loop c ctx reference 3 (after_attempt c reference 2 ?w2))"
    using poll_loop_pending [of 2 c ctx ?w2 reference "''PENDING''"] max pend nd
    by (simp add: terminal_def)
  have "poll_loop c ctx reference 3 (after_attempt c reference 2 ?w2) =
     (Inl (TimeoutAfterAttempts 3), 3, after_attempt c reference 2 ?w2)"
    using poll_loop_exhausted [of 3 c ctx reference] max by simp
  with two third show ?thesis by simp
qed

text \<open>
  C1. Whatever the gateway and the context do, \<open>PollTransactionStatus\<close> issues at most
  \<open>MaxPollAttempts\<close> status requests (none when that number is not positive). With a gateway
  whose every status check returns PENDING, \<open>MaxPollAttempts = 3\<close> and a context that has not
  fired when the third request is due (the \<open>select\<close> numbered 4), it issues exactly 3
  requests and then returns a timeout error: "transaction timeout after 3 attempts", or
  "transaction timeout: ..." with the context's error when the context fires during the
  last wait (the \<open>select\<close> numbered 5).
\<close>

theorem PollTransactionStatus_calls_bounded:
  "status_calls (snd (snd (PollTransactionStatus c ctx reference w)))
     \<le> status_calls w + nat (MaxPollAttempts (config c))
   \<and> (MaxPollAttempts (config c) = 3 \<and> (\<forall>n. check_result c reference n = Inr ''PENDING'') \<and>
      \<not> Done ctx 4 \<longrightarrow>
        (case PollTransactionStatus c ctx reference (poll_start l) of
           (result, attempts, w') \<Rightarrow>
             status_calls w' = status_calls (poll_start l) + 3 \<and>
             result = (if Done ctx 5 then Inl (TransactionTimeout (Err ctx 5))
                       else Inl (TimeoutAfterAttempts 3))))"
proof (intro conjI impI)
  show "status_calls (snd (snd (PollTransactionStatus c ctx reference w)))
     \<le> status_calls w + nat (MaxPollAttempts (config c))"
    using poll_loop_calls_le [of c ctx reference 0 w] by (simp add: PollTransactionStatus_def)
next
  assume "MaxPollAttempts (config c) = 3 \<and> (\<forall>n. check_result c reference n = Inr ''PENDING'') \<and>
      \<not> Done ctx 4"
  then show "case PollTransactionStatus c ctx reference (poll_start l) of
           (result, attempts, w') \<Rightarrow>
             status_calls w' = status_calls (poll_start l) + 3 \<and>
             result = (if Done ctx 5 then Inl (TransactionTimeout (Err ctx 5))
                       else Inl (TimeoutAfterAttempts 3))"
    by (simp add: PollTransactionStatus_def poll_three_pending)
qed

theorem PollTransactionStatus_calls_bounded_witness:
  "status_calls (snd (snd (PollTransactionStatus (stub_client (\<lambda>n. ''PENDING'') 3) NeverDone
       ''abc123'' (poll_start [])))) = 3
   \<and> status_calls (snd (snd (PollTransactionStatus (stub_client (\<lambda>n. ''PENDING'') 3)
       (DoneFrom 5 DeadlineExceeded) ''abc123'' (poll_start [])))) = 3
   \<and> fst (PollTransactionStatus (stub_client (\<lambda>n. ''PENDING'') 3) NeverDone
       ''abc123'' (poll_start [])) = Inl (TimeoutAfterAttempts 3)
   \<and> fst (PollTransactionStatus (stub_client (\<lambda>n. ''PENDING'') 3)
       (DoneFrom 5 DeadlineExceeded) ''abc123'' (poll_start []))
         = Inl (TransactionTimeout (Some DeadlineExceeded))"
  using PollTransactionStatus_calls_bounded
    [of "stub_client (\<lambda>n. ''PENDING'') 3" NeverDone "''abc123''" "poll_start []" "[]"]
    PollTransactionStatus_calls_bounded
    [of "stub_client (\<lambda>n. ''PENDING'') 3" "DoneFrom 5 DeadlineExceeded" "''abc123''"
        "poll_start []" "[]"]
  by (auto simp add: status_calls_poll_start split: prod.splits)

text \<open>
  C2. For every \<open>k\<close> below \<open>MaxPollAttempts\<close>: when the first \<open>k\<close> status checks return PENDING
  and the next one returns SUCCESSFUL, and the context has not fired when that request is
  due (the \<open>select\<close> numbered \<open>2 * k\<close>), \<open>PollTransactionStatus\<close> issues exactly \<open>k + 1\<close>
  requests and returns the successful outcome; the world it leaves is the one right after
  the request that found SUCCESSFUL.
\<close>

theorem PollTransactionStatus_pending_then_successful:
  assumes "int k < MaxPollAttempts (config c)"
    and "\<forall>i<k. check_result c reference i = Inr ''PENDING''"
    and "check_result c reference k = Inr ''SUCCESSFUL''"
    and "\<not> Done ctx (2 * k)"
  shows "PollTransactionStatus c ctx reference (poll_start l) =
           (Inr msg_successful, int k,
            after_check c reference (after_attempts c reference 0 k (poll_start l)))
         \<and> status_calls (after_check c reference (after_attempts c reference 0 k (poll_start l)))
             = status_calls (poll_start l) + (k + 1)"
proof -
  let ?wk = "after_attempts c reference 0 k (poll_start l)"
  have "\<forall>p. p < selects (poll_start l) + 2 * k \<longrightarrow> \<not> Done ctx p"
    using not_Done_below [OF assms(4)] by simp
  then have "poll_loop c ctx reference 0 (poll_start l) = poll_loop c ctx reference (int k) ?wk"
    using poll_loop_pending_steps [of 0 k c reference "poll_start l" ctx] assms(1,2) by simp
  moreover have "poll_loop c ctx reference (int k) ?wk =
      (Inr msg_successful, int k, after_check c reference ?wk)"
    using poll_loop_terminal [of "int k" c ctx ?wk reference "''SUCCESSFUL''"] assms(1,3,4)
    by (simp add: terminal_def)
  ultimately show ?thesis
    by (simp add: PollTransactionStatus_def)
qed

theorem PollTransactionStatus_pending_then_successful_witness:
  "PollTransactionStatus (stub_client (\<lambda>n. if n < 2 then ''PENDING'' else ''SUCCESSFUL'') 40)
       NeverDone ''abc123'' (poll_start []) =
     (Inr msg_successful, 2,
      \<lparr>gets = 3, selects = 5,
       log = [GetTransaction ''https://demo.campay.net/api/transaction/abc123/'',
              PrintPending 1 40,
              GetTransaction ''https://demo.campay.net/api/transaction/abc123/'',
              PrintPending 2 40,
              GetTransaction ''https://demo.campay.net/api/transaction/abc123/'']\<rparr>)"
proof -
  let ?c = "stub_client (\<lambda>n. if n < 2 then ''PENDING'' else ''SUCCESSFUL'') 40"
  have "PollTransactionStatus ?c NeverDone ''abc123'' (poll_start []) =
      (Inr msg_successful, int 2,
       after_check ?c ''abc123'' (after_attempts ?c ''abc123'' 0 2 (poll_start [])))"
    using PollTransactionStatus_pending_then_successful [of 2 ?c "''abc123''" NeverDone "[]"]
    by simp
  then show ?thesis
    by (simp add: numeral_2_eq_2 after_check_def after_attempt_def poll_start_def status_url_def
          stub_client_def defaultBaseURL_def)
qed

lemma poll_reaches_select:
  assumes "int (t div 2) < MaxPollAttempts (config c)"
    and "\<forall>i < (t + 1) div 2. pending_result (check_result c reference i)"
  shows "poll_loop c (DoneFrom t e) reference 0 (poll_start l) =
     (if even t
      then (Inl (StatusCheckCancelled (Some e)), int (t div 2),
            (after_attempts c reference 0 (t div 2) (poll_start l))\<lparr>selects := t + 1\<rparr>)
      else (Inl (TransactionTimeout (Some e)), int (t div 2) + 1,
            after_attempt c reference (int (t div 2))
              (after_attempts c reference 0 (t div 2) (poll_start l))))"
proof -
  let ?ctx = "DoneFrom t e"
  let ?k = "t div 2"
  let ?wk = "after_attempts c reference 0 ?k (poll_start l)"
  have "\<forall>i<?k. pending_result (check_result c reference (gets (poll_start l) + i))"
    using assms(2) by simp
  moreover have "\<forall>p. p < selects (poll_start l) + 2 * ?k \<longrightarrow> \<not> Done ?ctx p"
    by auto
  ultimately have steps:
    "poll_loop c ?ctx reference 0 (poll_start l) = poll_loop c ?ctx reference (int ?k) ?wk"
    using poll_loop_pending_steps [of 0 ?k c reference "poll_start l" ?ctx] assms(1) by simp
  show ?thesis
  proof (cases "even t")
    case True
    then have t: "2 * ?k = t" by simp
    then have "Done ?ctx (selects ?wk)" by simp
    then have "poll_loop c ?ctx reference (int ?k) ?wk =
        (Inl (StatusCheckCancelled (Err ?ctx (selects ?wk))), int ?k,
         ?wk\<lparr>selects := selects ?wk + 1\<rparr>)"
      using assms(1) by (rule poll_loop_cancelled [rotated])
    with steps True t show ?thesis by simp
  next
    case False
    then have t: "2 * ?k + 1 = t" by presburger
    then have "?k < (t + 1) div 2" by linarith
    then have "pending_result (check_result c reference ?k)"
      using assms(2) by blast
    then obtain status where
      st: "check_result c reference (gets ?wk) = Inr status" "\<not> terminal status"
      by (cases "check_result c reference ?k") (simp_all add: pending_result_def)
    have nd: "\<not> Done ?ctx (selects ?wk)" and d: "Done ?ctx (selects ?wk + 1)"
      using t by simp_all
    have "poll_loop c ?ctx reference (int ?k) ?wk =
        (Inl (TransactionTimeout (Err ?ctx (selects ?wk + 1))), int ?k + 1,
         after_attempt c reference (int ?k) ?wk)"
      using poll_loop_pending [OF assms(1) nd st] d by simp
    with steps False t show ?thesis by simp
  qed
qed

text \<open>
  C6. Let the context be done from the \<open>select\<close> numbered \<open>t\<close> on. Whatever the gateway
  answers, the poller issues no status request after that \<open>select\<close>: at most the
  \<open>(t + 1) div 2\<close> requests that come before it. If the poll is still running then (the
  budget is not used up and the checks before have returned statuses that are not
  terminal), it returns an error that carries the context's error: "transaction status
  check cancelled" when \<open>t\<close> is the check before a request, which is then not issued, and
  "transaction timeout" when \<open>t\<close> is a wait. The attempt counter stays at the number of
  requests issued before.
\<close>

theorem PollTransactionStatus_cancelled:
  "status_calls (snd (snd (PollTransactionStatus c (DoneFrom t e) reference (poll_start l))))
     \<le> status_calls (poll_start l) + (t + 1) div 2
   \<and> (int (t div 2) < MaxPollAttempts (config c) \<and>
      (\<forall>i < (t + 1) div 2. pending_result (check_result c reference i)) \<longrightarrow>
        (case PollTransactionStatus c (DoneFrom t e) reference (poll_start l) of
           (result, attempts, w') \<Rightarrow>
             result = Inl (if even t then StatusCheckCancelled (Some e)
                           else TransactionTimeout (Some e)) \<and>
             attempts = int ((t + 1) div 2) \<and>
             status_calls w' = status_calls (poll_start l) + (t + 1) div 2))"
proof (intro conjI impI)
  have "2 * status_calls (snd (snd (poll_loop c (DoneFrom t e) reference 0 (poll_start l))))
     \<le> 2 * status_calls (poll_start l) + (t + 1 - selects (poll_start l))"
    by (rule poll_loop_calls_done)
  then show "status_calls (snd (snd (PollTransactionStatus c (DoneFrom t e) reference (poll_start l))))
     \<le> status_calls (poll_start l) + (t + 1) div 2"
    by (simp add: PollTransactionStatus_def)
next
  assume a: "int (t div 2) < MaxPollAttempts (config c) \<and>
      (\<forall>i < (t + 1) div 2. pending_result (check_result c reference i))"
  have "even t \<Longrightarrow> (t + 1) div 2 = t div 2" and "odd t \<Longrightarrow> (t + 1) div 2 = t div 2 + 1"
    by presburger+
  then show "case PollTransactionStatus c (DoneFrom t e) reference (poll_start l) of
           (result, attempts, w') \<Rightarrow>
             result = Inl (if even t then StatusCheckCancelled (Some e)
                           else TransactionTimeout (Some e)) \<and>
             attempts = int ((t + 1) div 2) \<and>
             status_calls w' = status_calls (poll_start l) + (t + 1) div 2"
    using a by (simp add: PollTransactionStatus_def poll_reaches_select)
qed

theorem PollTransactionStatus_cancelled_witness:
  "PollTransactionStatus (stub_client (\<lambda>n. ''PENDING'') 40) (DoneFrom 0 Canceled)
       ''abc123'' (poll_start []) =
     (Inl (StatusCheckCancelled (Some Canceled)), 0, \<lparr>gets = 0, selects = 1, log = []\<rparr>)
   \<and> fst (PollTransactionStatus (stub_client (\<lambda>n. ''PENDING'') 40) (DoneFrom 2 Canceled)
       ''abc123'' (poll_start [])) = Inl (StatusCheckCancelled (Some Canceled))
   \<and> status_calls (snd (snd (PollTransactionStatus (stub_client (\<lambda>n. ''PENDING'') 40)
       (DoneFrom 2 Canceled) ''abc123'' (poll_start [])))) = 1
   \<and> fst (PollTransactionStatus (stub_client (\<lambda>n. ''PENDING'') 40) (DoneFrom 3 DeadlineExceeded)
       ''abc123'' (poll_start [])) = Inl (TransactionTimeout (Some DeadlineExceeded))
   \<and> status_calls (snd (snd (PollTransactionStatus (stub_client (\<lambda>n. ''PENDING'') 40)
       (DoneFrom 3 DeadlineExceeded) ''abc123'' (poll_start [])))) = 2"
proof -
  let ?c = "stub_client (\<lambda>n. ''PENDING'') 40"
  have "case PollTransactionStatus ?c (DoneFrom 0 Canceled) ''abc123'' (poll_start []) of
      (result, attempts, w') \<Rightarrow>
        result = Inl (StatusCheckCancelled (Some Canceled)) \<and> attempts = 0 \<and> status_calls w' = 0"
    using PollTransactionStatus_cancelled [of ?c 0 Canceled "''abc123''" "[]"]
    by (auto simp add: status_calls_poll_start split: prod.splits)
  moreover have "snd (snd (PollTransactionStatus ?c (DoneFrom 0 Canceled) ''abc123'' (poll_start [])))
      = \<lparr>gets = 0, selects = 1, log = []\<rparr>"
    by (simp add: PollTransactionStatus_def poll_loop_cancelled poll_start_def)
  moreover have "case PollTransactionStatus ?c (DoneFrom 2 Canceled) ''abc123'' (poll_start []) of
      (result, attempts, w') \<Rightarrow>
        result = Inl (StatusCheckCancelled (Some Canceled)) \<and> attempts = 1 \<and> status_calls w' = 1"
    using PollTransactionStatus_cancelled [of ?c 2 Canceled "''abc123''" "[]"]
    by (auto simp add: status_calls_poll_start split: prod.splits)
  moreover have "case PollTransactionStatus ?c (DoneFrom 3 DeadlineExceeded) ''abc123'' (poll_start []) of
      (result, attempts, w') \<Rightarrow>
        result = Inl (TransactionTimeout (Some DeadlineExceeded)) \<and> attempts = 2 \<and> status_calls w' = 2"
    using PollTransactionStatus_cancelled [of ?c 3 DeadlineExceeded "''abc123''" "[]"]
    by (auto simp add: status_calls_poll_start split: prod.splits)
  ultimately show ?thesis
    by (auto split: prod.splits)
qed

section \<open>Poller: statuses that are not terminal\<close>

lemma config_as_pending [simp]: "config (as_pending c) = config c"
  by (simp add: as_pending_def)

lemma status_url_as_pending [simp]: "status_url (as_pending c) reference = status_url c reference"
  by (simp add: status_url_def)

lemma after_check_as_pending [simp]:
  "after_check (as_pending c) reference w = after_check c reference w"
  by (simp add: after_check_def)

lemma after_attempt_as_pending [simp]:
  "after_attempt (as_pending c) reference attempts w = after_attempt c reference attempts w"
  by (simp add: after_attempt_def)

lemma check_result_eq:
  "check_result c reference n =
     (case resty_execute zero_StatusResponse (get_outcome (client c) n (status_url c reference)) of
        Inl err \<Rightarrow> Inl (RequestFailed err)
      | Inr (resp, statusResp) \<Rightarrow>
          if StatusCode resp < 200 \<or> StatusCode resp \<ge> 300
          then Inl (APIError (StatusCode resp) (Body resp))
          else Inr (Status statusResp))"
  by (simp add: check_result_def CheckTransactionStatus_def status_url_def Let_def
      split: sum.splits prod.splits)

lemma resty_execute_pending:
  "resty_execute zero_StatusResponse
     (Inr \<lparr>StatusCode = 200, JSONContent = True, Body = [],
           Decoded = Some \<lparr>Status = ''PENDING''\<rparr>\<rparr>) =
   Inr (\<lparr>StatusCode = 200, JSONContent = True, Body = [],
         Decoded = Some \<lparr>Status = ''PENDING''\<rparr>\<rparr>, \<lparr>Status = ''PENDING''\<rparr>)"
  by (simp add: resty_execute_def resty_result_def)

lemma check_result_as_pending:
  "check_result (as_pending c) reference n =
     (case check_result c reference n of
        Inl err \<Rightarrow> Inl err
      | Inr status \<Rightarrow> if terminal status then Inr status else Inr ''PENDING'')"
proof -
  let ?url = "status_url c reference"
  let ?out = "get_outcome (client c) n ?url"
  show ?thesis
  proof (cases "resty_execute zero_StatusResponse ?out")
    case (Inl err)
    then have "get_outcome (client (as_pending c)) n ?url = ?out"
      by (simp add: as_pending_def)
    with Inl show ?thesis
      by (simp add: check_result_eq)
  next
    case (Inr p)
    obtain resp statusResp where p: "p = (resp, statusResp)"
      by (cases p)
    show ?thesis
    proof (cases "StatusCode resp < 200 \<or> StatusCode resp \<ge> 300 \<or> terminal (Status statusResp)")
      case True
      with Inr p have "get_outcome (client (as_pending c)) n ?url = ?out"
        by (simp add: as_pending_def)
      with Inr p True show ?thesis
        by (auto simp add: check_result_eq)
    next
      case False
      with Inr p have "get_outcome (client (as_pending c)) n ?url =
          Inr \<lparr>StatusCode = 200, JSONContent = True, Body = [],
                Decoded = Some \<lparr>Status = ''PENDING''\<rparr>\<rparr>"
        by (simp add: as_pending_def)
      then have "check_result (as_pending c) reference n = Inr ''PENDING''"
        by (simp add: check_result_eq resty_execute_pending)
      moreover from Inr p False have "check_result c reference n = Inr (Status statusResp)"
        by (simp add: check_result_eq)
      ultimately show ?thesis
        using False by simp
    qed
  qed
qed

lemma pending_result_as_pending [simp]:
  "pending_result (check_result (as_pending c) reference n) =
     pending_result (check_result c reference n)"
  by (simp add: check_result_as_pending pending_result_def terminal_def split: sum.splits)

text \<open>
  The loop cannot tell a status that is not terminal from PENDING: in front of the gateway
  that answers PENDING instead, it returns the same result, the same attempt counter and
  the same trace.
\<close>

lemma poll_loop_as_pending:
  "poll_loop (as_pending c) ctx reference attempts w = poll_loop c ctx reference attempts w"
proof (induction attempts w rule: poll_loop_induct [where c = c and ctx = ctx and reference = reference])
  case (stop attempts w)
  then have stop': "\<not> (attempts < MaxPollAttempts (config (as_pending c)) \<and> \<not> Done ctx (selects w) \<and>
         pending_result (check_result (as_pending c) reference (gets w)) \<and> \<not> Done ctx (selects w + 1))"
    by simp
  from stop show ?case
  proof (cases rule: poll_loop_stop_cases)
    case exhausted
    then show ?thesis by (simp add: poll_loop_exhausted)
  next
    case cancelled
    then show ?thesis by (simp add: poll_loop_cancelled)
  next
    case (failed err)
    then have "check_result (as_pending c) reference (gets w) = Inl err"
      by (simp add: check_result_as_pending)
    with failed show ?thesis by (simp add: poll_loop_check_failed)
  next
    case (terminal status)
    then have "check_result (as_pending c) reference (gets w) = Inr status"
      by (simp add: check_result_as_pending)
    with terminal show ?thesis
      using poll_loop_terminal [of attempts "as_pending c" ctx w reference status] by simp
  next
    case (timeout status)
    then have "check_result (as_pending c) reference (gets w) = Inr ''PENDING''"
      by (simp add: check_result_as_pending)
    with timeout show ?thesis
      using poll_loop_pending [of attempts "as_pending c" ctx w reference "''PENDING''"]
      by (simp add: terminal_def)
  qed
next
  case (continue attempts w status)
  then have "check_result (as_pending c) reference (gets w) = Inr ''PENDING''"
    by (simp add: check_result_as_pending)
  then have "poll_loop (as_pending c) ctx reference attempts w =
      poll_loop (as_pending c) ctx reference (attempts + 1) (after_attempt c reference attempts w)"
    using continue.hyps poll_loop_pending [of attempts "as_pending c" ctx w reference "''PENDING''"]
    by (simp add: terminal_def)
  moreover have "poll_loop c ctx reference attempts w =
      poll_loop c ctx reference (attempts + 1) (after_attempt c reference attempts w)"
    using continue.hyps by (simp add: poll_loop_pending)
  ultimately show ?case
    using continue.IH by simp
qed

text \<open>An error of the poll that comes from a status check is an error that some check returned.\<close>

lemma poll_loop_CheckFailed:
  "fst (poll_loop c ctx reference attempts w) = Inl (CheckFailed err) \<Longrightarrow>
   \<exists>n. check_result c reference n = Inl err"
proof (induction attempts w rule: poll_loop_induct [where c = c and ctx = ctx and reference = reference])
  case (stop attempts w)
  from stop(1) stop(2) show ?case
    by (cases rule: poll_loop_stop_cases) (auto split: if_splits)
next
  case (continue attempts w status)
  have "poll_loop c ctx reference attempts w =
      poll_loop c ctx reference (attempts + 1) (after_attempt c reference attempts w)"
    using continue.hyps by (simp add: poll_loop_pending)
  with continue.IH continue.prems show ?case by simp
qed

text \<open>
  C10. In an iteration whose status check returns, without error, any string other than
  exactly "SUCCESSFUL" or "FAILED" (an unknown value, the empty string, a lowercase
  variant), the poller adds one to the attempt counter, prints the PENDING progress line
  with the new count, and goes on: it waits, and unless the context fires during the wait
  it runs the loop again with the new count. The whole poll is the same as if every such
  status had been PENDING, and it fails with a check error only when a check returned one.
\<close>

theorem PollTransactionStatus_nonterminal_status:
  "(attempts < MaxPollAttempts (config c) \<and> \<not> Done ctx (selects w) \<and>
    check_result c reference (gets w) = Inr status \<and>
    status \<noteq> ''SUCCESSFUL'' \<and> status \<noteq> ''FAILED'' \<longrightarrow>
      poll_loop c ctx reference attempts w =
        (let w' = w\<lparr>gets := gets w + 1,
                     log := log w @ [GetTransaction (status_url c reference),
                                     PrintPending (attempts + 1) (MaxPollAttempts (config c))],
                     selects := selects w + 2\<rparr>
         in if Done ctx (selects w + 1)
            then (Inl (TransactionTimeout (Err ctx (selects w + 1))), attempts + 1, w')
            else poll_loop c ctx reference (attempts + 1) w'))
   \<and> PollTransactionStatus (as_pending c) ctx reference w = PollTransactionStatus c ctx reference w
   \<and> (fst (PollTransactionStatus c ctx reference w) = Inl (CheckFailed err) \<longrightarrow>
        (\<exists>n. check_result c reference n = Inl err))"
proof (intro conjI impI)
  assume a: "attempts < MaxPollAttempts (config c) \<and> \<not> Done ctx (selects w) \<and>
    check_result c reference (gets w) = Inr status \<and>
    status \<noteq> ''SUCCESSFUL'' \<and> status \<noteq> ''FAILED''"
  then have "\<not> terminal status"
    by (simp add: terminal_def)
  with a show "poll_loop c ctx reference attempts w =
        (let w' = w\<lparr>gets := gets w + 1,
                     log := log w @ [GetTransaction (status_url c reference),
                                     PrintPending (attempts + 1) (MaxPollAttempts (config c))],
                     selects := selects w + 2\<rparr>
         in if Done ctx (selects w + 1)
            then (Inl (TransactionTimeout (Err ctx (selects w + 1))), attempts + 1, w')
            else poll_loop c ctx reference (attempts + 1) w')"
    using poll_loop_pending [of attempts c ctx w reference status]
    by (simp add: after_attempt_def Let_def)
next
  show "PollTransactionStatus (as_pending c) ctx reference w = PollTransactionStatus c ctx reference w"
    by (simp add: PollTransactionStatus_def poll_loop_as_pending)
next
  assume "fst (PollTransactionStatus c ctx reference w) = Inl (CheckFailed err)"
  then show "\<exists>n. check_result c reference n = Inl err"
    by (simp add: PollTransactionStatus_def poll_loop_CheckFailed)
qed

text \<open>
  A budget of two and a gateway that answers "successful" in lowercase and then the empty
  string: two requests, two progress lines, and the timeout after two attempts.
\<close>

theorem PollTransactionStatus_nonterminal_status_witness:
  "PollTransactionStatus (stub_client (\<lambda>n. if n = 0 then ''successful'' else []) 2) NeverDone
       ''abc123'' (poll_start []) =
     (Inl (TimeoutAfterAttempts 2), 2,
      \<lparr>gets = 2, selects = 4,
       log = [GetTransaction ''https://demo.campay.net/api/transaction/abc123/'',
              PrintPending 1 2,
              GetTransaction ''https://demo.campay.net/api/transaction/abc123/'',
              PrintPending 2 2]\<rparr>)"
proof -
  let ?c = "stub_client (\<lambda>n. if n = 0 then ''successful'' else []) 2"
  let ?u = "status_url ?c ''abc123''"
  let ?w1 = "\<lparr>gets = 1, selects = 2, log = [GetTransaction ?u, PrintPending 1 2]\<rparr>"
  let ?w2 = "\<lparr>gets = 2, selects = 4,
              log = [GetTransaction ?u, PrintPending 1 2, GetTransaction ?u, PrintPending 2 2]\<rparr>"
  have "poll_loop ?c NeverDone ''abc123'' 0 (poll_start []) = poll_loop ?c NeverDone ''abc123'' 1 ?w1"
    using PollTransactionStatus_nonterminal_status
      [of 0 ?c NeverDone "poll_start []" "''abc123''" "''successful''"]
    by (simp add: poll_start_def eval_nat_numeral)
  moreover have "poll_loop ?c NeverDone ''abc123'' 1 ?w1 = poll_loop ?c NeverDone ''abc123'' 2 ?w2"
    using PollTransactionStatus_nonterminal_status [of 1 ?c NeverDone ?w1 "''abc123''" "[]"]
    by (simp add: eval_nat_numeral)
  moreover have "poll_loop ?c NeverDone ''abc123'' 2 ?w2 = (Inl (TimeoutAfterAttempts 2), 2, ?w2)"
    using poll_loop_exhausted [of 2 ?c NeverDone "''abc123''" ?w2] by simp
  ultimately show ?thesis
    by (simp add: PollTransactionStatus_def status_url_def stub_client_def defaultBaseURL_def)
qed

section \<open>Gateway client: properties\<close>

lemma InitiatePayment_eq:
  "fst (InitiatePayment c req w) =
     (case resty_execute zero_InitResponse (post_outcome (client c) (collect_url c) req) of
        Inl err \<Rightarrow> Inl (RequestFailed err)
      | Inr (resp, initResp) \<Rightarrow>
          if StatusCode resp < 200 \<or> StatusCode resp \<ge> 300
          then Inl (APIError (StatusCode resp) (Message initResp))
          else if Reference initResp = [] then Inl (NoReference (Message initResp))
          else Inr (Reference initResp))"
  by (simp add: InitiatePayment_def collect_url_def Let_def split: sum.splits prod.splits)

lemma InitiatePayment_world:
  "snd (InitiatePayment c req w) = emit (PostCollect (collect_url c) req) w"
  by (simp add: InitiatePayment_def collect_url_def Let_def split: sum.splits prod.splits)

text \<open>
  For a reply outside 200 to 299 the struct that \<open>SetResult\<close> registered is still zero, so
  the error carries the status code and an empty message, whatever the body says.
\<close>

lemma InitiatePayment_non_2xx:
  "post_outcome (client c) (collect_url c) req = Inr resp \<Longrightarrow>
   StatusCode resp < 200 \<or> StatusCode resp \<ge> 300 \<Longrightarrow>
   fst (InitiatePayment c req w) = Inl (APIError (StatusCode resp) [])"
  by (auto simp add: InitiatePayment_eq resty_execute_def resty_result_def zero_InitResponse_def)

text \<open>
  C7, at the input of the claim: the gateway answers the initiation with HTTP 400 and the
  JSON body \<open>{"message":"invalid credentials"}\<close>. \<open>InitiatePayment\<close> returns the error
  "API error (status 400): " with the status code and an empty message: the message of the
  body is not carried.
\<close>

theorem InitiatePayment_400_message_dropped:
  "fst (InitiatePayment (NewCampayClient gateway_400 cfg) req w) = Inl (APIError 400 [])
   \<and> body_message reply_400 = ''invalid credentials''"
  by (simp add: InitiatePayment_eq NewCampayClient_def gateway_400_def reply_400_def
        body_message_def resty_execute_def resty_result_def zero_InitResponse_def)

text \<open>
  C8. \<open>InitiatePayment\<close> returns a reference only when it is not empty. When the reply has
  a status code from 200 to 299 and its body provides no reference or an empty one, the
  result is an error: "no reference returned", or "request failed" when the body of a JSON
  reply cannot be unmarshalled.
\<close>

theorem InitiatePayment_reference_nonempty:
  "(fst (InitiatePayment c req w) = Inr reference \<longrightarrow> reference \<noteq> [])
   \<and> (post_outcome (client c) (collect_url c) req = Inr resp \<and>
      200 \<le> StatusCode resp \<and> StatusCode resp < 300 \<and> body_reference resp = [] \<longrightarrow>
        fst (InitiatePayment c req w) =
          Inl (if StatusCode resp \<noteq> 204 \<and> JSONContent resp
               then (case Decoded resp of
                       None \<Rightarrow> RequestFailed UnmarshalError
                     | Some v \<Rightarrow> NoReference (Message v))
               else NoReference []))"
proof (intro conjI impI)
  assume "fst (InitiatePayment c req w) = Inr reference"
  then show "reference \<noteq> []"
    by (auto simp add: InitiatePayment_eq split: sum.splits prod.splits if_splits)
next
  assume a: "post_outcome (client c) (collect_url c) req = Inr resp \<and>
      200 \<le> StatusCode resp \<and> StatusCode resp < 300 \<and> body_reference resp = []"
  show "fst (InitiatePayment c req w) =
          Inl (if StatusCode resp \<noteq> 204 \<and> JSONContent resp
               then (case Decoded resp of
                       None \<Rightarrow> RequestFailed UnmarshalError
                     | Some v \<Rightarrow> NoReference (Message v))
               else NoReference [])"
  proof (cases "Decoded resp")
    case None
    with a show ?thesis
      by (simp add: InitiatePayment_eq resty_execute_def resty_result_def zero_InitResponse_def)
  next
    case (Some v)
    with a have "Reference v = []"
      by (simp add: body_reference_def)
    with a Some show ?thesis
      by (simp add: InitiatePayment_eq resty_execute_def resty_result_def zero_InitResponse_def)
  qed
qed

theorem InitiatePayment_reference_nonempty_witness:
  "fst (InitiatePayment (NewCampayClient (gateway_replying reply_no_reference)
          (config (stub_client (\<lambda>n. []) 40)))
        \<lparr>Amount = ''500'', From = ''677123456'', Description = ''Payment test''\<rparr> world0)
     = Inl (NoReference ''try again'')
   \<and> fst (InitiatePayment (NewCampayClient (gateway_replying reply_ok)
          (config (stub_client (\<lambda>n. []) 40)))
        \<lparr>Amount = ''500'', From = ''677123456'', Description = ''Payment test''\<rparr> world0)
     = Inr ''abc123''
   \<and> ''abc123'' \<noteq> []"
proof -
  let ?cfg = "config (stub_client (\<lambda>n. []) 40)"
  let ?req = "\<lparr>Amount = ''500'', From = ''677123456'', Description = ''Payment test''\<rparr>"
  have "fst (InitiatePayment (NewCampayClient (gateway_replying reply_no_reference) ?cfg) ?req world0)
      = Inl (NoReference ''try again'')"
    using InitiatePayment_reference_nonempty
      [of "NewCampayClient (gateway_replying reply_no_reference) ?cfg" ?req world0 "[]"
          reply_no_reference]
    by (simp add: NewCampayClient_def gateway_replying_def reply_no_reference_def
          body_reference_def)
  moreover have ok: "fst (InitiatePayment (NewCampayClient (gateway_replying reply_ok) ?cfg) ?req world0)
      = Inr ''abc123''"
    by (simp add: InitiatePayment_eq NewCampayClient_def gateway_replying_def reply_ok_def
          resty_execute_def resty_result_def)
  moreover have "''abc123'' \<noteq> []"
    using InitiatePayment_reference_nonempty
      [of "NewCampayClient (gateway_replying reply_ok) ?cfg" ?req world0 "''abc123''"] ok
    by simp
  ultimately show ?thesis by simp
qed

section \<open>Orchestrator: properties\<close>

lemma network_calls_emit_Prompt [simp]: "network_calls (emit (Prompt s) w) = network_calls w"
  by (simp add: network_calls_def emit_def)

lemma network_calls_world0 [simp]: "network_calls world0 = []"
  by (simp add: network_calls_def world0_def)

text \<open>Reading the user's input makes no network call.\<close>

lemma getUserInput_no_network:
  "network_calls (snd (getUserInput env w)) = network_calls w"
  by (simp add: getUserInput_def Let_def split: prod.splits sum.splits)

text \<open>\<open>run\<close> returns a validation error only from the validation of the request it has read.\<close>

lemma run_ValidationFailed:
  assumes "run env = (Some (ValidationFailed err), w)"
  shows "\<exists>cfg req. loadConfig env = Inr cfg \<and> getUserInput env world0 = (Inr req, w) \<and>
           validatePaymentRequest (ParseFloat env) req = Some err"
  using assms
  by (auto simp add: run_def Let_def split: sum.splits prod.splits option.splits)

text \<open>
  C9. When the request that \<open>run\<close> has read fails validation, \<open>run\<close> returns the validation
  error in the world that reading the input left: its trace has no network call, neither
  the initiation request nor a status request, and \<open>main\<close> exits with code 1. Conversely,
  every run that returns a validation error has made no network call.
\<close>

theorem run_validation_fails_before_network:
  "(loadConfig env = Inr cfg \<and> getUserInput env world0 = (Inr req, w1) \<and>
    validatePaymentRequest (ParseFloat env) req = Some err \<longrightarrow>
      run env = (Some (ValidationFailed err), w1) \<and> network_calls w1 = [] \<and>
      fst (main env) = 1)
   \<and> (run env = (Some (ValidationFailed err), w) \<longrightarrow>
      network_calls w = [] \<and> fst (main env) = 1)"
proof (intro conjI impI)
  assume a: "loadConfig env = Inr cfg \<and> getUserInput env world0 = (Inr req, w1) \<and>
    validatePaymentRequest (ParseFloat env) req = Some err"
  then show r: "run env = (Some (ValidationFailed err), w1)"
    by (simp add: run_def Let_def)
  from a have "network_calls w1 = network_calls (snd (getUserInput env world0))"
    by simp
  then show "network_calls w1 = []"
    by (simp add: getUserInput_no_network)
  from r show "fst (main env) = 1"
    by (simp add: main_def)
next
  assume r: "run env = (Some (ValidationFailed err), w)"
  then obtain cfg req where "loadConfig env = Inr cfg" "getUserInput env world0 = (Inr req, w)"
    using run_ValidationFailed by blast
  then have "network_calls w = network_calls (snd (getUserInput env world0))"
    by simp
  then show "network_calls w = []"
    by (simp add: getUserInput_no_network)
  from r show "fst (main env) = 1"
    by (simp add: main_def)
qed

lemma getUserInput_env_short_phone:
  "getUserInput env_short_phone world0 =
     (Inr \<lparr>Amount = ''500'', From = ''12345'', Description = ''test''\<rparr>,
      \<lparr>gets = 0, selects = 0,
       log = [Prompt ''Enter mobile money number: '', Prompt ''Enter amount: '',
              Prompt ''Enter description: '']\<rparr>)"
  by (simp add: getUserInput_def env_short_phone_def ReadString_def emit_def world0_def Let_def)

theorem run_validation_fails_before_network_witness:
  "run env_short_phone =
     (Some (ValidationFailed PhoneTooShort),
      \<lparr>gets = 0, selects = 0,
       log = [Prompt ''Enter mobile money number: '', Prompt ''Enter amount: '',
              Prompt ''Enter description: '']\<rparr>)
   \<and> fst (main env_short_phone) = 1"
proof -
  let ?cfg = "\<lparr>BaseURL = defaultBaseURL, APIKey = ''secret'',
               PollInterval = pollInterval, MaxPollAttempts = maxPollAttempts\<rparr>"
  let ?req = "\<lparr>Amount = ''500'', From = ''12345'', Description = ''test''\<rparr>"
  have "loadConfig env_short_phone = Inr ?cfg"
    by (simp add: loadConfig_def env_short_phone_def Let_def)
  moreover have "validatePaymentRequest (ParseFloat env_short_phone) ?req = Some PhoneTooShort"
    by (simp add: validatePaymentRequest_def validatePhoneNumber_def minPhoneLength_def)
  ultimately show ?thesis
    using run_validation_fails_before_network
      [of env_short_phone ?cfg ?req _ PhoneTooShort] getUserInput_env_short_phone
    by simp
qed

end
